theory Spec2Isabelle
  imports Main
begin

section \<open>Data model of \<^verbatim>\<open>json_parser.py\<close>\<close>

text \<open>
  A Python \<^verbatim>\<open>str\<close> is a sequence of Unicode code points, so a text is a list of
  natural numbers, one per code point (not a list of bytes).  \<open>str\<close> turns an ASCII
  literal into such a text.
\<close>

type_synonym codepoint = nat
type_synonym pystr = "codepoint list"

definition str :: "string \<Rightarrow> pystr" where
  "str s = map of_char s"

abbreviation DQUOTE :: codepoint where "DQUOTE \<equiv> 34"
abbreviation BACKSLASH :: codepoint where "BACKSLASH \<equiv> 92"
abbreviation NEWLINE :: codepoint where "NEWLINE \<equiv> 10"

text \<open>\<^verbatim>\<open>s[a:b]\<close> for \<open>0 \<le> a\<close>, \<open>0 \<le> b\<close>: Python clips a slice to the string.\<close>

definition slice :: "'a list \<Rightarrow> nat \<Rightarrow> nat \<Rightarrow> 'a list" where
  "slice s a b = take (b - a) (drop a s)"

text \<open>
  The group names of \<^verbatim>\<open>_TOKEN_RE\<close>; \<^verbatim>\<open>m.lastgroup\<close> is one of them, and it is the
  first component of a token.
\<close>

datatype kind = STRING | NUMBER | LITERAL | BRACE | BRACKET | COMMA | COLON | WHITESPACE

text \<open>
  Python values that tokens carry and \<^verbatim>\<open>parse\<close> returns.  A \<^verbatim>\<open>dict\<close> keeps insertion
  order, so it is an association list.  The numeric value of a \<^verbatim>\<open>float\<close> is not
  modelled: \<open>PyFloat\<close> keeps the lexeme that \<^verbatim>\<open>float()\<close> was applied to.
\<close>

datatype pyvalue =
    PyStr pystr
  | PyInt int
  | PyFloat pystr
  | PyBool bool
  | PyNone
  | PyList "pyvalue list"
  | PyDict "(pyvalue \<times> pyvalue) list"

text \<open>\<^verbatim>\<open>Token((kind, value, start))\<close>: a triple.\<close>

type_synonym token = "kind \<times> pyvalue \<times> nat"

text \<open>
  Every \<^verbatim>\<open>raise SyntaxError(...)\<close> of the source is one constructor, carrying the data
  its message is formatted from.  \<open>pyexc\<close> are the exception classes that can leave
  the code: \<^verbatim>\<open>SyntaxError\<close>, \<^verbatim>\<open>StopIteration\<close> (an exhausted token generator) and
  \<^verbatim>\<open>UnicodeEncodeError\<close> (from \<^verbatim>\<open>str.encode\<close>).  \<open>OutOfFuel\<close> is not a Python
  exception: it is the result of the recursive-descent functions below when their
  recursion bound is used up.
\<close>

datatype syntax_error =
    InvalidCharacter nat
      \<comment> \<open>\<^verbatim>\<open>invalid character at offset {pos}\<close>\<close>
  | TrailingBackslash nat
      \<comment> \<open>\<^verbatim>\<open>trailing backslash in string at offset {..}\<close>\<close>
  | UnterminatedString nat
      \<comment> \<open>\<^verbatim>\<open>unterminated string starting at offset {token_start}\<close>\<close>
  | ShortUnicodeEscape nat
      \<comment> \<open>\<^verbatim>\<open>short unicode escape at offset {..}\<close>\<close>
  | InvalidHexEscape pystr nat
      \<comment> \<open>\<^verbatim>\<open>invalid hex escape {seq} at offset {..}\<close>\<close>
  | InvalidEscape codepoint nat
      \<comment> \<open>\<^verbatim>\<open>invalid escape \{esc} at offset {..}\<close>\<close>
  | BadEscapeSequence
      \<comment> \<open>\<^verbatim>\<open>bad escape sequence: {exc}\<close>\<close>
  | UnpairedSurrogate
      \<comment> \<open>\<^verbatim>\<open>unpaired surrogate in string\<close>\<close>
  | UnexpectedEndOfInput
      \<comment> \<open>\<^verbatim>\<open>unexpected end of input\<close>\<close>
  | UnexpectedToken kind pyvalue nat kind "pystr option"
      \<comment> \<open>\<^verbatim>\<open>unexpected token {kind} '{act_val}' at offset {pos} - expected {exp}\<close>\<close>
  | ValueExpected kind pyvalue
      \<comment> \<open>\<^verbatim>\<open>unexpected token {kind} '{value}' - value expected\<close>\<close>
  | DepthLimitExceeded
      \<comment> \<open>\<^verbatim>\<open>depth limit exceeded\<close>\<close>
  | DuplicateKey
      \<comment> \<open>\<^verbatim>\<open>duplicate key\<close>\<close>
  | RootMustBeContainer kind pyvalue nat
      \<comment> \<open>\<^verbatim>\<open>payload must be object or array at root - got {kind} '{val}' at offset {pos}\<close>\<close>
  | ExtraData nat
      \<comment> \<open>\<^verbatim>\<open>extra data after root value at offset {p2}\<close>\<close>

datatype pyexc = SyntaxError syntax_error | StopIteration | UnicodeEncodeError | OutOfFuel

section \<open>The token regular expression\<close>

text \<open>
  Each named alternative of \<^verbatim>\<open>_TOKEN_RE\<close> is a function from the text that starts
  at the scan position to the length of the match there, \<open>None\<close> when it does not
  match.  The pattern is a \<^verbatim>\<open>str\<close> pattern, so \<^verbatim>\<open>\d\<close> and \<^verbatim>\<open>\s\<close> are the
  Unicode classes: the decimal digits (category Nd, which come in runs of ten in
  the order 0 to 9; the table is that of Unicode 14.0.0) and the characters for
  which \<^verbatim>\<open>str.isspace\<close> holds.
\<close>

definition nd_runs :: "(nat \<times> nat) list" where
  "nd_runs =
    [(48, 10), (1632, 10), (1776, 10), (1984, 10), (2406, 10), (2534, 10), (2662, 10),
     (2790, 10), (2918, 10), (3046, 10), (3174, 10), (3302, 10), (3430, 10), (3558, 10),
     (3664, 10), (3792, 10), (3872, 10), (4160, 10), (4240, 10), (6112, 10), (6160, 10),
     (6470, 10), (6608, 10), (6784, 10), (6800, 10), (6992, 10), (7088, 10), (7232, 10),
     (7248, 10), (42528, 10), (43216, 10), (43264, 10), (43472, 10), (43504, 10),
     (43600, 10), (44016, 10), (65296, 10), (66720, 10), (68912, 10), (69734, 10),
     (69872, 10), (69942, 10), (70096, 10), (70384, 10), (70736, 10), (70864, 10),
     (71248, 10), (71360, 10), (71472, 10), (71904, 10), (72016, 10), (72784, 10),
     (73040, 10), (73120, 10), (92768, 10), (92864, 10), (93008, 10), (120782, 50),
     (123200, 10), (123632, 10), (125264, 10), (130032, 10)]"

definition re_digit :: "codepoint \<Rightarrow> bool" where
  "re_digit c = ((48 \<le> c \<and> c \<le> 57) \<or>
     (1632 \<le> c \<and> list_ex (\<lambda>(s, n). s \<le> c \<and> c < s + n) nd_runs))"

definition digit_value :: "codepoint \<Rightarrow> nat" where
  "digit_value c =
     (if 48 \<le> c \<and> c \<le> 57 then c - 48
      else case List.find (\<lambda>(s, n). s \<le> c \<and> c < s + n) nd_runs of
             Some (s, n) \<Rightarrow> (c - s) mod 10
           | None \<Rightarrow> 0)"

definition re_space :: "codepoint \<Rightarrow> bool" where
  "re_space c = ((9 \<le> c \<and> c \<le> 13) \<or> (28 \<le> c \<and> c \<le> 32) \<or>
     (133 \<le> c \<and> c \<in> set [133, 160, 5760, 8232, 8233, 8239, 8287, 12288]) \<or>
     (8192 \<le> c \<and> c \<le> 8202))"

text \<open>\<^verbatim>\<open>\d*\<close>, greedy: the number of digits at the front.\<close>

fun match_digits :: "pystr \<Rightarrow> nat" where
  "match_digits [] = 0"
| "match_digits (c # cs) = (if re_digit c then Suc (match_digits cs) else 0)"

text \<open>\<^verbatim>\<open>(?:0|[1-9]\d*)\<close>: the alternative \<^verbatim>\<open>0\<close> is tried first and nothing after it
  in the pattern can fail, so a leading \<^verbatim>\<open>0\<close> is a match of length one.\<close>

definition match_int :: "pystr \<Rightarrow> nat option" where
  "match_int s =
     (case s of
        [] \<Rightarrow> None
      | c # cs \<Rightarrow>
          if c = 48 then Some 1
          else if 49 \<le> c \<and> c \<le> 57 then Some (Suc (match_digits cs))
          else None)"

text \<open>\<^verbatim>\<open>(?:\.\d+)?\<close>: the length of the fraction, 0 when the group matches nothing.\<close>

definition match_frac :: "pystr \<Rightarrow> nat" where
  "match_frac s =
     (case s of
        [] \<Rightarrow> 0
      | c # cs \<Rightarrow> if c = 46 \<and> 0 < match_digits cs then Suc (match_digits cs) else 0)"

text \<open>\<^verbatim>\<open>(?:[eE][+-]?\d+)?\<close>: the sign is tried first; without digits behind it the
  engine retries without the sign, and then the whole group matches nothing.\<close>

definition match_exp :: "pystr \<Rightarrow> nat" where
  "match_exp s =
     (case s of
        [] \<Rightarrow> 0
      | c # cs \<Rightarrow>
          if c = 101 \<or> c = 69 then
            (case cs of
               [] \<Rightarrow> 0
             | d # ds \<Rightarrow>
                 if (d = 43 \<or> d = 45) \<and> 0 < match_digits ds then Suc (Suc (match_digits ds))
                 else if 0 < match_digits cs then Suc (match_digits cs)
                 else 0)
          else 0)"

text \<open>\<^verbatim>\<open>_NUMBER = -?(?:0|[1-9]\d*)(?:\.\d+)?(?:[eE][+-]?\d+)?\<close>\<close>

definition match_NUMBER :: "pystr \<Rightarrow> nat option" where
  "match_NUMBER s =
     (let sgn = (case s of [] \<Rightarrow> 0 | c # cs \<Rightarrow> if c = 45 then 1 else (0::nat));
          s1 = drop sgn s
      in case match_int s1 of
           None \<Rightarrow> None
         | Some ni \<Rightarrow>
             let s2 = drop ni s1;
                 nf = match_frac s2;
                 s3 = drop nf s2;
                 ne = match_exp s3
             in Some (sgn + ni + nf + ne))"

text \<open>
  \<^verbatim>\<open>(?:[^"\\\x00-\x1F]|\\.)*"\<close>, the part of \<^verbatim>\<open>_STRING\<close> after the opening quote:
  the length up to and including the closing quote.  The two alternatives of the
  star start with different characters and neither starts with a quote, so the
  engine has no choice to revisit.  \<^verbatim>\<open>.\<close> is any character but a newline.
\<close>

fun match_string_rest :: "pystr \<Rightarrow> nat option" where
  "match_string_rest [] = None"
| "match_string_rest (c # cs) =
     (if c = DQUOTE then Some 1
      else if c = BACKSLASH then
        (case cs of
           [] \<Rightarrow> None
         | d # ds \<Rightarrow>
             if d = NEWLINE then None
             else map_option (\<lambda>n. Suc (Suc n)) (match_string_rest ds))
      else if c \<le> 31 then None
      else map_option Suc (match_string_rest cs))"

definition match_STRING :: "pystr \<Rightarrow> nat option" where
  "match_STRING s =
     (case s of
        [] \<Rightarrow> None
      | c # cs \<Rightarrow> if c = DQUOTE then map_option Suc (match_string_rest cs) else None)"

text \<open>\<^verbatim>\<open>_LITERAL = true|false|null\<close>\<close>

definition match_LITERAL :: "pystr \<Rightarrow> nat option" where
  "match_LITERAL s =
     (if take 4 s = str ''true'' then Some 4
      else if take 5 s = str ''false'' then Some 5
      else if take 4 s = str ''null'' then Some 4
      else None)"

definition match_char :: "codepoint list \<Rightarrow> pystr \<Rightarrow> nat option" where
  "match_char cls s = (case s of [] \<Rightarrow> None | c # cs \<Rightarrow> if c \<in> set cls then Some 1 else None)"

definition match_WHITESPACE :: "pystr \<Rightarrow> nat option" where
  "match_WHITESPACE s =
     (if length (takeWhile re_space s) = 0 then None else Some (length (takeWhile re_space s)))"

text \<open>
  \<^verbatim>\<open>_TOKEN_RE\<close> at one position: the alternatives in the order of the pattern, the
  first that matches wins.  The result is \<^verbatim>\<open>m.lastgroup\<close> and the length of
  \<^verbatim>\<open>m.group()\<close>.
\<close>

definition token_alternatives :: "(kind \<times> (pystr \<Rightarrow> nat option)) list" where
  "token_alternatives =
     [(STRING, match_STRING), (NUMBER, match_NUMBER), (LITERAL, match_LITERAL),
      (BRACE, match_char [123, 125]), (BRACKET, match_char [91, 93]),
      (COMMA, match_char [44]), (COLON, match_char [58]),
      (WHITESPACE, match_WHITESPACE)]"

fun first_match :: "(kind \<times> (pystr \<Rightarrow> nat option)) list \<Rightarrow> pystr \<Rightarrow> (kind \<times> nat) option" where
  "first_match [] s = None"
| "first_match ((k, m) # alts) s =
     (case m s of Some n \<Rightarrow> Some (k, n) | None \<Rightarrow> first_match alts s)"

definition match_token :: "pystr \<Rightarrow> (kind \<times> nat) option" where
  "match_token s = first_match token_alternatives s"

text \<open>
  One step of \<^verbatim>\<open>_TOKEN_RE.finditer(text)\<close>: the first match at or after the scan
  position, as \<^verbatim>\<open>(m.lastgroup, m.start(), m.end())\<close>.  The first argument is the
  text from the scan position on, the second the offset of its first character.
  No alternative matches the empty string, so there is no match at the end.
\<close>

fun finditer_from :: "pystr \<Rightarrow> nat \<Rightarrow> (kind \<times> nat \<times> nat) option" where
  "finditer_from [] p = None"
| "finditer_from (c # cs) p =
     (case match_token (c # cs) of
        Some (k, n) \<Rightarrow> Some (k, p, p + n)
      | None \<Rightarrow> finditer_from cs (Suc p))"

section \<open>String validation\<close>

text \<open>
  The \<^verbatim>\<open>while i < n\<close> loop of \<^verbatim>\<open>_validate_string\<close> over \<^verbatim>\<open>inner\<close>: \<open>None\<close> when
  the loop ends without raising, otherwise the error raised.
\<close>

definition is_hex :: "codepoint \<Rightarrow> bool" where
  "is_hex c = (c \<in> set (str ''0123456789abcdefABCDEF''))"

definition short_escapes :: pystr where
  "short_escapes = [DQUOTE, BACKSLASH] @ str ''/bfnrt''"

function scan_escapes :: "pystr \<Rightarrow> nat \<Rightarrow> nat \<Rightarrow> syntax_error option" where
  "scan_escapes inner token_start i =
     (if i < length inner then
        (if inner ! i = BACKSLASH then
           (if i + 1 \<ge> length inner then Some (TrailingBackslash (token_start + 1 + i))
            else if inner ! (i + 1) = 117 then
              (if i + 6 > length inner then Some (ShortUnicodeEscape (token_start + 1 + i))
               else if \<not> list_all is_hex (slice inner (i + 2) (i + 6)) then
                 Some (InvalidHexEscape (slice inner i (i + 6)) (token_start + 1 + i))
               else scan_escapes inner token_start (i + 6))
            else if inner ! (i + 1) \<in> set short_escapes then
              scan_escapes inner token_start (i + 2)
            else Some (InvalidEscape (inner ! (i + 1)) (token_start + 1 + i)))
         else scan_escapes inner token_start (i + 1))
      else None)"
  by pat_completeness auto
termination
  by (relation "measure (\<lambda>(inner, token_start, i). length inner - i)") auto

declare scan_escapes.simps [simp del]

text \<open>
  \<^verbatim>\<open>inner.encode("utf-8")\<close>: the bytes of each code point; a code point in the
  surrogate range has no UTF-8 form and the call raises \<^verbatim>\<open>UnicodeEncodeError\<close>
  (\<open>None\<close>).
\<close>

definition utf8_char :: "codepoint \<Rightarrow> nat list option" where
  "utf8_char c =
     (if c < 128 then Some [c]
      else if c < 2048 then Some [192 + c div 64, 128 + c mod 64]
      else if c < 65536 then
        (if 55296 \<le> c \<and> c \<le> 57343 then None
         else Some [224 + c div 4096, 128 + (c div 64) mod 64, 128 + c mod 64])
      else Some [240 + c div 262144, 128 + (c div 4096) mod 64,
                 128 + (c div 64) mod 64, 128 + c mod 64])"

fun utf8_encode :: "pystr \<Rightarrow> nat list option" where
  "utf8_encode [] = Some []"
| "utf8_encode (c # cs) =
     (case utf8_char c of
        None \<Rightarrow> None
      | Some bs \<Rightarrow> map_option (\<lambda>r. bs @ r) (utf8_encode cs))"

text \<open>
  \<^verbatim>\<open>bytes.decode("unicode_escape")\<close>, the codec of the interpreter: a byte that is
  not a backslash is the code point of the same number (Latin-1); a backslash
  starts one of the escapes of a Python string literal; \<^verbatim>\<open>\uXXXX\<close> is the code
  point \<^verbatim>\<open>XXXX\<close>, whatever it is (two of them are two code points); a backslash
  before any other character stays, and so does the character.  \<open>None\<close> is
  \<^verbatim>\<open>UnicodeDecodeError\<close>.  The named escape \<^verbatim>\<open>\N{...}\<close> needs the table of
  character names and is given as an error here; the scan above lets no \<^verbatim>\<open>\N\<close>
  through.
\<close>

definition hex_digit :: "nat \<Rightarrow> nat" where
  "hex_digit c = (if c \<le> 57 then c - 48 else if c \<le> 70 then c - 55 else c - 87)"

definition hex_number :: "nat list \<Rightarrow> nat" where
  "hex_number ds = foldl (\<lambda>a d. 16 * a + hex_digit d) 0 ds"

definition is_octal :: "nat \<Rightarrow> bool" where
  "is_octal c = (48 \<le> c \<and> c \<le> 55)"

definition simple_escape :: "nat \<Rightarrow> codepoint option" where
  "simple_escape e =
     (if e = BACKSLASH then Some BACKSLASH
      else if e = 39 then Some 39
      else if e = DQUOTE then Some DQUOTE
      else if e = 98 then Some 8
      else if e = 102 then Some 12
      else if e = 116 then Some 9
      else if e = 110 then Some 10
      else if e = 114 then Some 13
      else if e = 118 then Some 11
      else if e = 97 then Some 7
      else None)"

definition hex_escape_length :: "nat \<Rightarrow> nat" where
  "hex_escape_length e = (if e = 120 then 2 else if e = 117 then 4 else if e = 85 then 8 else 0)"

fun unicode_escape_decode :: "nat list \<Rightarrow> pystr option" where
  "unicode_escape_decode [] = Some []"
| "unicode_escape_decode [b] = (if b = BACKSLASH then None else Some [b])"
| "unicode_escape_decode (b # e # rest) =
     (if b \<noteq> BACKSLASH then map_option (\<lambda>r. b # r) (unicode_escape_decode (e # rest))
      else if e = NEWLINE then unicode_escape_decode rest
      else if simple_escape e \<noteq> None then
        map_option (\<lambda>r. the (simple_escape e) # r) (unicode_escape_decode rest)
      else if is_octal e then
        (let k = length (takeWhile is_octal (take 2 rest));
             v = foldl (\<lambda>a d. 8 * a + (d - 48)) 0 (e # take k rest)
         in map_option (\<lambda>r. v # r) (unicode_escape_decode (drop k rest)))
      else if 0 < hex_escape_length e then
        (let k = hex_escape_length e in
         if length rest < k \<or> \<not> list_all is_hex (take k rest) \<or> 1114111 < hex_number (take k rest)
         then None
         else map_option (\<lambda>r. hex_number (take k rest) # r) (unicode_escape_decode (drop k rest)))
      else if e = 78 then None
      else map_option (\<lambda>r. BACKSLASH # e # r) (unicode_escape_decode rest))"

definition is_surrogate :: "codepoint \<Rightarrow> bool" where
  "is_surrogate code = (55296 \<le> code \<and> code \<le> 57343)"

text \<open>\<^verbatim>\<open>_validate_string(raw, token_start)\<close>\<close>

definition validate_string :: "pystr \<Rightarrow> nat \<Rightarrow> pyexc + pystr" where
  "validate_string raw token_start =
     (if length raw < 2 \<or> raw ! 0 \<noteq> DQUOTE \<or> last raw \<noteq> DQUOTE then
        (if length raw > 0 \<and> last raw = BACKSLASH
         then Inl (SyntaxError (TrailingBackslash (token_start + length raw - 1)))
         else Inl (SyntaxError (UnterminatedString token_start)))
      else
        (let inner = slice raw 1 (length raw - 1) in
         case scan_escapes inner token_start 0 of
           Some err \<Rightarrow> Inl (SyntaxError err)
         | None \<Rightarrow>
             (case utf8_encode inner of
                None \<Rightarrow> Inl UnicodeEncodeError
              | Some bytes \<Rightarrow>
                  (case unicode_escape_decode bytes of
                     None \<Rightarrow> Inl (SyntaxError BadEscapeSequence)
                   | Some decoded \<Rightarrow>
                       if list_ex is_surrogate decoded then Inl (SyntaxError UnpairedSurrogate)
                       else Inr decoded))))"

section \<open>The tokenizer\<close>

text \<open>
  \<^verbatim>\<open>float(value) if any(c in value for c in ".eE") else int(value)\<close>.  \<^verbatim>\<open>int()\<close>
  reads an optional minus sign and decimal digits.  (The interpreter's limit on the
  number of digits that \<^verbatim>\<open>int()\<close> accepts is left out.)
\<close>

definition py_int :: "pystr \<Rightarrow> int" where
  "py_int value =
     (case value of
        [] \<Rightarrow> 0
      | c # cs \<Rightarrow>
          if c = 45 then - int (foldl (\<lambda>a d. 10 * a + digit_value d) 0 cs)
          else int (foldl (\<lambda>a d. 10 * a + digit_value d) 0 value))"

definition number_value :: "pystr \<Rightarrow> pyvalue" where
  "number_value value =
     (if list_ex (\<lambda>c. c \<in> set value) (str ''.eE'') then PyFloat value else PyInt (py_int value))"

text \<open>\<^verbatim>\<open>{"true": True, "false": False, "null": None}[value]\<close>; the key is always there,
  since \<^verbatim>\<open>value\<close> matched \<^verbatim>\<open>_LITERAL\<close>.\<close>

definition literal_value :: "pystr \<Rightarrow> pyvalue" where
  "literal_value value =
     (if value = str ''true'' then PyBool True
      else if value = str ''false'' then PyBool False
      else PyNone)"

lemma first_match_bounds:
  assumes "first_match alts s = Some (k, n)"
    and "\<forall>(k', m) \<in> set alts. \<forall>n'. m s = Some n' \<longrightarrow> 0 < n' \<and> n' \<le> length s"
  shows "0 < n \<and> n \<le> length s"
  using assms by (induction alts) (auto split: option.splits)

lemma match_digits_le: "match_digits s \<le> length s"
  by (induction s) auto

lemma match_string_rest_bounds: "match_string_rest s = Some n \<Longrightarrow> 0 < n \<and> n \<le> length s"
  by (induction s arbitrary: n rule: match_string_rest.induct)
     (auto split: if_splits list.splits)

lemma match_STRING_bounds: "match_STRING s = Some n \<Longrightarrow> 0 < n \<and> n \<le> length s"
  by (auto simp: match_STRING_def split: list.splits if_splits dest: match_string_rest_bounds)

lemma match_int_bounds: "match_int s = Some n \<Longrightarrow> 0 < n \<and> n \<le> length s"
  using match_digits_le [of "tl s"]
  by (auto simp: match_int_def split: list.splits if_splits)

lemma match_frac_le: "match_frac s \<le> length s"
  using match_digits_le [of "tl s"]
  by (auto simp: match_frac_def split: list.splits)

lemma match_exp_le: "match_exp s \<le> length s"
  using match_digits_le [of "tl s"] match_digits_le [of "tl (tl s)"]
  by (auto simp: match_exp_def split: list.splits)

lemma match_NUMBER_bounds:
  assumes "match_NUMBER s = Some n"
  shows "0 < n \<and> n \<le> length s"
proof -
  define sgn :: nat where "sgn = (case s of [] \<Rightarrow> 0 | c # cs \<Rightarrow> if c = 45 then 1 else 0)"
  define s1 where "s1 = drop sgn s"
  from assms obtain ni where ni: "match_int s1 = Some ni"
    and n: "n = sgn + ni + match_frac (drop ni s1) + match_exp (drop (match_frac (drop ni s1)) (drop ni s1))"
    by (auto simp: match_NUMBER_def Let_def sgn_def s1_def split: option.splits)
  define nf where "nf = match_frac (drop ni s1)"
  define ne where "ne = match_exp (drop nf (drop ni s1))"
  have "sgn \<le> length s"
    by (auto simp: sgn_def split: list.splits)
  moreover have "0 < ni \<and> ni \<le> length s - sgn"
    using match_int_bounds [OF ni] by (simp add: s1_def)
  moreover have "nf \<le> length s - sgn - ni"
    using match_frac_le [of "drop ni s1"] by (simp add: nf_def s1_def)
  moreover have "ne \<le> length s - sgn - ni - nf"
    using match_exp_le [of "drop nf (drop ni s1)"] by (simp add: ne_def s1_def)
  moreover have "n = sgn + ni + nf + ne"
    using n by (simp add: nf_def ne_def)
  ultimately show ?thesis
    by linarith
qed

lemma take_eq_str_length: "take k s = str lit \<Longrightarrow> length lit = k \<Longrightarrow> k \<le> length s"
  by (metis length_map length_take min.cobounded1 min_def str_def)

lemma match_LITERAL_bounds:
  assumes "match_LITERAL s = Some n"
  shows "0 < n \<and> n \<le> length s"
proof -
  from assms have "(take 4 s = str ''true'' \<and> n = 4) \<or> (take 5 s = str ''false'' \<and> n = 5)
      \<or> (take 4 s = str ''null'' \<and> n = 4)"
    unfolding match_LITERAL_def by (simp split: if_splits)
  moreover have "take 4 s = str ''true'' \<Longrightarrow> 4 \<le> length s"
    using take_eq_str_length [of 4 s "''true''"] by simp
  moreover have "take 5 s = str ''false'' \<Longrightarrow> 5 \<le> length s"
    using take_eq_str_length [of 5 s "''false''"] by simp
  moreover have "take 4 s = str ''null'' \<Longrightarrow> 4 \<le> length s"
    using take_eq_str_length [of 4 s "''null''"] by simp
  ultimately show ?thesis
    by auto
qed

lemma match_char_bounds: "match_char cls s = Some n \<Longrightarrow> 0 < n \<and> n \<le> length s"
  by (auto simp: match_char_def split: list.splits if_splits)

lemma match_WHITESPACE_bounds: "match_WHITESPACE s = Some n \<Longrightarrow> 0 < n \<and> n \<le> length s"
  by (auto simp: match_WHITESPACE_def length_takeWhile_le split: if_splits)

lemma match_token_bounds: "match_token s = Some (k, n) \<Longrightarrow> 0 < n \<and> n \<le> length s"
  unfolding match_token_def
  by (erule first_match_bounds)
     (auto simp: token_alternatives_def
           dest: match_STRING_bounds match_NUMBER_bounds match_LITERAL_bounds
                 match_char_bounds match_WHITESPACE_bounds)

lemma finditer_from_bounds:
  "finditer_from s p = Some (k, a, b) \<Longrightarrow> p \<le> a \<and> a < b \<and> b \<le> p + length s"
proof (induction s p rule: finditer_from.induct)
  case (1 p)
  then show ?case by simp
next
  case (2 c cs p)
  show ?case
  proof (cases "match_token (c # cs)")
    case None
    with 2 show ?thesis by auto
  next
    case (Some kn)
    with 2 match_token_bounds [of "c # cs" "fst kn" "snd kn"] show ?thesis
      by (cases kn) auto
  qed
qed

text \<open>
  The generator \<^verbatim>\<open>lex(text)\<close>, resumed with its local \<^verbatim>\<open>pos\<close>: it runs to the next
  \<^verbatim>\<open>yield\<close> (\<open>Inr (Some (token, pos'))\<close>, \<open>pos'\<close> being \<^verbatim>\<open>pos\<close> at the yield, the match's \<^verbatim>\<open>m.end()\<close>), to
  its end (\<open>Inr None\<close>: the caller's \<^verbatim>\<open>next\<close> raises \<^verbatim>\<open>StopIteration\<close>) or to a
  \<^verbatim>\<open>raise\<close>.  \<^verbatim>\<open>finditer\<close> continues where the last match ended, which is \<^verbatim>\<open>pos\<close>.
  \<open>lex_yield\<close> is the part of the loop body after \<^verbatim>\<open>continue\<close>: the conversion
  of the lexeme by kind and the \<^verbatim>\<open>yield\<close>.
\<close>

definition lex_yield :: "pystr \<Rightarrow> kind \<Rightarrow> nat \<Rightarrow> nat \<Rightarrow> pyexc + (token \<times> nat) option" where
  "lex_yield text kind start stop =
     (if kind = STRING then
        (case validate_string (slice text start stop) start of
           Inl e \<Rightarrow> Inl e
         | Inr v \<Rightarrow> Inr (Some ((kind, PyStr v, start), stop)))
      else if kind = NUMBER then
        Inr (Some ((kind, number_value (slice text start stop), start), stop))
      else if kind = LITERAL then
        Inr (Some ((kind, literal_value (slice text start stop), start), stop))
      else Inr (Some ((kind, PyStr (slice text start stop), start), stop)))"

function lex_next :: "pystr \<Rightarrow> nat \<Rightarrow> pyexc + (token \<times> nat) option" where
  "lex_next text pos =
     (case finditer_from (drop pos text) pos of
        None \<Rightarrow>
          if pos \<noteq> length text then Inl (SyntaxError (InvalidCharacter pos)) else Inr None
      | Some (kind, start, stop) \<Rightarrow>
          if start \<noteq> pos then Inl (SyntaxError (InvalidCharacter pos))
          else if kind = WHITESPACE then lex_next text stop
          else lex_yield text kind start stop)"
  by pat_completeness auto
termination
proof (relation "measure (\<lambda>(t, pos). length t - pos)", goal_cases)
  case 1
  show ?case by simp
next
  case (2 t pos x2 kind y start stop)
  from 2(1-3) have "finditer_from (drop pos t) pos = Some (kind, start, stop)"
    by (simp only:)
  from finditer_from_bounds [OF this] have "start < stop" and "stop \<le> pos + length (drop pos t)"
    by blast+
  moreover from 2(4) have "start = pos"
    by blast
  ultimately show ?case
    by simp
qed

declare lex_next.simps [simp del]

text \<open>
  \<^verbatim>\<open>list(lex(text))\<close>: the generator run to its end.  Every token moves \<^verbatim>\<open>pos\<close>
  forward, so the run is finite.
\<close>

lemma lex_next_advances:
  "lex_next t pos = Inr (Some (tok, pos')) \<Longrightarrow> pos < pos' \<and> pos' \<le> length t"
proof (induction t pos rule: lex_next.induct)
  case (1 t pos)
  show ?case
  proof (cases "finditer_from (drop pos t) pos")
    case None
    with 1(2) show ?thesis
      by (simp add: lex_next.simps split: if_splits)
  next
    case (Some m)
    obtain kind start stop where m: "m = (kind, start, stop)"
      by (cases m)
    from finditer_from_bounds [of "drop pos t" pos kind start stop] Some m
    have b: "start < stop" "stop \<le> pos + length (drop pos t)"
      by simp_all
    show ?thesis
    proof (cases "start = pos")
      case False
      with 1(2) Some m show ?thesis
        by (simp add: lex_next.simps)
    next
      case True
      show ?thesis
      proof (cases "kind = WHITESPACE")
        case w: True
        with 1(2) Some m True have "lex_next t stop = Inr (Some (tok, pos'))"
          by (simp add: lex_next.simps [of t pos])
        with 1(1) [OF Some m [symmetric] refl _ w] True have "stop < pos' \<and> pos' \<le> length t"
          by simp
        with b True show ?thesis
          by simp
      next
        case False
        with 1(2) Some m True have "lex_yield t kind pos stop = Inr (Some (tok, pos'))"
          by (simp add: lex_next.simps [of t pos])
        then have "pos' = stop"
          by (auto simp: lex_yield_def split: if_splits sum.splits)
        with b True show ?thesis
          by auto
      qed
    qed
  qed
qed

function lex_from :: "pystr \<Rightarrow> nat \<Rightarrow> pyexc + token list" where
  "lex_from text pos =
     (case lex_next text pos of
        Inl e \<Rightarrow> Inl e
      | Inr None \<Rightarrow> Inr []
      | Inr (Some (tok, pos')) \<Rightarrow>
          (case lex_from text pos' of Inl e \<Rightarrow> Inl e | Inr toks \<Rightarrow> Inr (tok # toks)))"
  by pat_completeness auto
termination
proof (relation "measure (\<lambda>(t, pos). length t - pos)", goal_cases)
  case 1
  show ?case by simp
next
  case (2 t pos b x2 x y)
  then have "lex_next t pos = Inr (Some (x, y))"
    by simp
  from lex_next_advances [OF this] show ?case
    by auto
qed

declare lex_from.simps [simp del]

definition lex :: "pystr \<Rightarrow> pyexc + token list" where
  "lex text = lex_from text 0"

section \<open>The lookahead cursor\<close>

text \<open>
  \<^verbatim>\<open>LookAhead\<close>: \<open>iter\<close> is the state of the wrapped generator (its \<^verbatim>\<open>pos\<close>), \<open>buf\<close>
  the pushback list.  Both operations return the token and the updated cursor, or
  the exception that \<^verbatim>\<open>next(self._iter)\<close> raised.
\<close>

record LookAhead =
  iter :: nat
  buf :: "token list"

definition generator_next :: "pystr \<Rightarrow> nat \<Rightarrow> pyexc + (token \<times> nat)" where
  "generator_next text pos =
     (case lex_next text pos of
        Inl e \<Rightarrow> Inl e
      | Inr None \<Rightarrow> Inl StopIteration
      | Inr (Some r) \<Rightarrow> Inr r)"

definition LookAhead_next :: "pystr \<Rightarrow> LookAhead \<Rightarrow> pyexc + (token \<times> LookAhead)" where
  "LookAhead_next text la =
     (if buf la \<noteq> [] then Inr (last (buf la), la\<lparr>buf := butlast (buf la)\<rparr>)
      else case generator_next text (iter la) of
             Inl e \<Rightarrow> Inl e
           | Inr (tok, pos') \<Rightarrow> Inr (tok, la\<lparr>iter := pos'\<rparr>))"

definition LookAhead_peek :: "pystr \<Rightarrow> LookAhead \<Rightarrow> pyexc + (token \<times> LookAhead)" where
  "LookAhead_peek text la =
     (if buf la = [] then
        (case generator_next text (iter la) of
           Inl e \<Rightarrow> Inl e
         | Inr (tok, pos') \<Rightarrow> Inr (tok, la\<lparr>iter := pos', buf := buf la @ [tok]\<rparr>))
      else Inr (last (buf la), la))"

section \<open>The recursive-descent parser\<close>

text \<open>\<^verbatim>\<open>try: ... except StopIteration: raise SyntaxError("unexpected end of input")\<close>\<close>

definition except_StopIteration :: "pyexc + 'a \<Rightarrow> pyexc + 'a" where
  "except_StopIteration r =
     (case r of
        Inl e \<Rightarrow> if e = StopIteration then Inl (SyntaxError UnexpectedEndOfInput) else Inl e
      | Inr x \<Rightarrow> Inr x)"

text \<open>\<^verbatim>\<open>_expect(tokens, expected_kind, expected_value=None)\<close>\<close>

definition expect ::
  "pystr \<Rightarrow> LookAhead \<Rightarrow> kind \<Rightarrow> pystr option \<Rightarrow> pyexc + (pyvalue \<times> LookAhead)" where
  "expect text tokens expected_kind expected_value =
     (case except_StopIteration (LookAhead_next text tokens) of
        Inl e \<Rightarrow> Inl e
      | Inr ((kind, value, pos), tokens') \<Rightarrow>
          if kind \<noteq> expected_kind \<or>
             (expected_value \<noteq> None \<and> value \<noteq> PyStr (the expected_value))
          then Inl (SyntaxError (UnexpectedToken kind value pos expected_kind expected_value))
          else Inr (value, tokens'))"

text \<open>\<^verbatim>\<open>key in obj\<close> and \<^verbatim>\<open>obj[key] = v\<close> on an insertion-ordered dictionary: a key
  that is there keeps its place and gets the new value.\<close>

definition dict_contains :: "(pyvalue \<times> pyvalue) list \<Rightarrow> pyvalue \<Rightarrow> bool" where
  "dict_contains obj key = (key \<in> set (map fst obj))"

fun dict_set :: "(pyvalue \<times> pyvalue) list \<Rightarrow> pyvalue \<Rightarrow> pyvalue \<Rightarrow> (pyvalue \<times> pyvalue) list" where
  "dict_set [] key v = [(key, v)]"
| "dict_set ((k, w) # obj) key v =
     (if k = key then (k, v) # obj else (k, w) # dict_set obj key v)"

text \<open>
  \<^verbatim>\<open>_parse_value\<close>, \<^verbatim>\<open>_parse_array\<close> and \<^verbatim>\<open>_parse_object\<close>, with the two
  \<^verbatim>\<open>while True\<close> loops as functions of the accumulated \<^verbatim>\<open>items\<close> and \<^verbatim>\<open>obj\<close>.
  The first argument bounds the number of nested calls and loop rounds; each of
  them reads at least one token, so a bound above the length of the text is never
  used up (\<open>parse\<close> below passes such a bound).
\<close>

function parse_value ::
    "nat \<Rightarrow> pystr \<Rightarrow> LookAhead \<Rightarrow> int \<Rightarrow> int \<Rightarrow> bool \<Rightarrow> pyexc + (pyvalue \<times> LookAhead)"
  and parse_array ::
    "nat \<Rightarrow> pystr \<Rightarrow> LookAhead \<Rightarrow> int \<Rightarrow> int \<Rightarrow> bool \<Rightarrow> pyexc + (pyvalue \<times> LookAhead)"
  and parse_array_loop ::
    "nat \<Rightarrow> pystr \<Rightarrow> LookAhead \<Rightarrow> int \<Rightarrow> int \<Rightarrow> bool \<Rightarrow> pyvalue list
      \<Rightarrow> pyexc + (pyvalue \<times> LookAhead)"
  and parse_object ::
    "nat \<Rightarrow> pystr \<Rightarrow> LookAhead \<Rightarrow> int \<Rightarrow> int \<Rightarrow> bool \<Rightarrow> pyexc + (pyvalue \<times> LookAhead)"
  and parse_object_loop ::
    "nat \<Rightarrow> pystr \<Rightarrow> LookAhead \<Rightarrow> int \<Rightarrow> int \<Rightarrow> bool \<Rightarrow> (pyvalue \<times> pyvalue) list
      \<Rightarrow> pyexc + (pyvalue \<times> LookAhead)"
where
  "parse_value 0 text tokens depth max_depth allow_dup = Inl OutOfFuel"
| "parse_value (Suc fuel) text tokens depth max_depth allow_dup =
     (if depth > max_depth then Inl (SyntaxError DepthLimitExceeded)
      else
        case except_StopIteration (LookAhead_next text tokens) of
          Inl e \<Rightarrow> Inl e
        | Inr ((kind, value, pos), tokens') \<Rightarrow>
            if kind = STRING \<or> kind = NUMBER \<or> kind = LITERAL then Inr (value, tokens')
            else if kind = BRACE \<and> value = PyStr (str ''{'') then
              parse_object fuel text tokens' (depth + 1) max_depth allow_dup
            else if kind = BRACKET \<and> value = PyStr (str ''['') then
              parse_array fuel text tokens' (depth + 1) max_depth allow_dup
            else Inl (SyntaxError (ValueExpected kind value)))"
| "parse_array 0 text tokens depth max_depth allow_dup = Inl OutOfFuel"
| "parse_array (Suc fuel) text tokens depth max_depth allow_dup =
     (case except_StopIteration (LookAhead_peek text tokens) of
        Inl e \<Rightarrow> Inl e
      | Inr (pk, tokens1) \<Rightarrow>
          if fst pk = BRACKET \<and> fst (snd pk) = PyStr (str '']'') then
            (case LookAhead_next text tokens1 of
               Inl e \<Rightarrow> Inl e
             | Inr (tok, tokens2) \<Rightarrow> Inr (PyList [], tokens2))
          else parse_array_loop fuel text tokens1 depth max_depth allow_dup [])"
| "parse_array_loop 0 text tokens depth max_depth allow_dup items = Inl OutOfFuel"
| "parse_array_loop (Suc fuel) text tokens depth max_depth allow_dup items =
     (case parse_value fuel text tokens depth max_depth allow_dup of
        Inl e \<Rightarrow> Inl e
      | Inr (v, tokens1) \<Rightarrow>
          (case except_StopIteration (LookAhead_peek text tokens1) of
             Inl e \<Rightarrow> Inl e
           | Inr (pk, tokens2) \<Rightarrow>
               if fst pk = BRACKET \<and> fst (snd pk) = PyStr (str '']'') then
                 (case LookAhead_next text tokens2 of
                    Inl e \<Rightarrow> Inl e
                  | Inr (tok, tokens3) \<Rightarrow> Inr (PyList (items @ [v]), tokens3))
               else
                 (case expect text tokens2 COMMA (Some (str '','')) of
                    Inl e \<Rightarrow> Inl e
                  | Inr (c, tokens3) \<Rightarrow>
                      parse_array_loop fuel text tokens3 depth max_depth allow_dup (items @ [v]))))"
| "parse_object 0 text tokens depth max_depth allow_dup = Inl OutOfFuel"
| "parse_object (Suc fuel) text tokens depth max_depth allow_dup =
     (case except_StopIteration (LookAhead_peek text tokens) of
        Inl e \<Rightarrow> Inl e
      | Inr (pk, tokens1) \<Rightarrow>
          if fst pk = BRACE \<and> fst (snd pk) = PyStr (str ''}'') then
            (case LookAhead_next text tokens1 of
               Inl e \<Rightarrow> Inl e
             | Inr (tok, tokens2) \<Rightarrow> Inr (PyDict [], tokens2))
          else parse_object_loop fuel text tokens1 depth max_depth allow_dup [])"
| "parse_object_loop 0 text tokens depth max_depth allow_dup obj = Inl OutOfFuel"
| "parse_object_loop (Suc fuel) text tokens depth max_depth allow_dup obj =
     (case expect text tokens STRING None of
        Inl e \<Rightarrow> Inl e
      | Inr (key, tokens1) \<Rightarrow>
          (case expect text tokens1 COLON (Some (str '':'')) of
             Inl e \<Rightarrow> Inl e
           | Inr (c, tokens2) \<Rightarrow>
               if \<not> allow_dup \<and> dict_contains obj key then Inl (SyntaxError DuplicateKey)
               else
                 (case parse_value fuel text tokens2 depth max_depth allow_dup of
                    Inl e \<Rightarrow> Inl e
                  | Inr (v, tokens3) \<Rightarrow>
                      (case except_StopIteration (LookAhead_peek text tokens3) of
                         Inl e \<Rightarrow> Inl e
                       | Inr (pk, tokens4) \<Rightarrow>
                           if fst pk = BRACE \<and> fst (snd pk) = PyStr (str ''}'') then
                             (case LookAhead_next text tokens4 of
                                Inl e \<Rightarrow> Inl e
                              | Inr (tok, tokens5) \<Rightarrow> Inr (PyDict (dict_set obj key v), tokens5))
                           else
                             (case expect text tokens4 COMMA (Some (str '','')) of
                                Inl e \<Rightarrow> Inl e
                              | Inr (c', tokens5) \<Rightarrow>
                                  parse_object_loop fuel text tokens5 depth max_depth allow_dup
                                    (dict_set obj key v))))))"
  by pat_completeness
    (simp_all only: sum.inject sum.distinct prod.inject nat.inject nat.distinct simp_thms)
termination
  by (relation "measure (\<lambda>x. case x of
         Inl (Inl a) \<Rightarrow> fst a
       | Inl (Inr a) \<Rightarrow> fst a
       | Inr (Inl a) \<Rightarrow> fst a
       | Inr (Inr (Inl a)) \<Rightarrow> fst a
       | Inr (Inr (Inr a)) \<Rightarrow> fst a)") simp_all

text \<open>\<^verbatim>\<open>DEPTH_LIMIT_DEFAULT\<close>\<close>

definition DEPTH_LIMIT_DEFAULT :: int where
  "DEPTH_LIMIT_DEFAULT = 19"

text \<open>
  \<^verbatim>\<open>parse(text, *, max_depth=DEPTH_LIMIT_DEFAULT, allow_dup=False)\<close>.  The first
  \<^verbatim>\<open>tokens.peek()\<close> stands outside any \<^verbatim>\<open>try\<close>: a \<^verbatim>\<open>StopIteration\<close> there leaves
  \<^verbatim>\<open>parse\<close> as it is.
\<close>

definition parse :: "pystr \<Rightarrow> int \<Rightarrow> bool \<Rightarrow> pyexc + pyvalue" where
  "parse text max_depth allow_dup =
     (case LookAhead_peek text \<lparr>iter = 0, buf = []\<rparr> of
        Inl e \<Rightarrow> Inl e
      | Inr ((first_kind, first_val, first_pos), tokens) \<Rightarrow>
          if first_kind \<noteq> BRACE \<and> first_kind \<noteq> BRACKET then
            Inl (SyntaxError (RootMustBeContainer first_kind first_val first_pos))
          else
            (case parse_value (2 * length text + 2) text tokens 0 max_depth allow_dup of
               Inl e \<Rightarrow> Inl e
             | Inr (result, tokens1) \<Rightarrow>
                 (case LookAhead_next text tokens1 of
                    Inl e \<Rightarrow> if e = StopIteration then Inr result else Inl e
                  | Inr ((k2, v2, p2), tokens2) \<Rightarrow> Inl (SyntaxError (ExtraData p2)))))"

section \<open>Evaluating the model on concrete texts\<close>

text \<open>
  The recursive-descent functions at a numeral bound, and the definitions that the
  simplifier unfolds to run the tokenizer and the parser on a given text.
\<close>

lemmas fuel_numeral =
  parse_value.simps(2) [of "pred_numeral k" for k, folded numeral_eq_Suc]
  parse_array.simps(2) [of "pred_numeral k" for k, folded numeral_eq_Suc]
  parse_array_loop.simps(2) [of "pred_numeral k" for k, folded numeral_eq_Suc]
  parse_object.simps(2) [of "pred_numeral k" for k, folded numeral_eq_Suc]
  parse_object_loop.simps(2) [of "pred_numeral k" for k, folded numeral_eq_Suc]

lemmas regex_defs = str_def slice_def match_token_def token_alternatives_def match_STRING_def
  match_NUMBER_def match_LITERAL_def match_char_def match_WHITESPACE_def match_int_def
  match_frac_def match_exp_def re_digit_def re_space_def

lemmas string_defs = validate_string_def scan_escapes.simps is_hex_def short_escapes_def
  utf8_char_def is_surrogate_def hex_digit_def hex_number_def simple_escape_def
  hex_escape_length_def is_octal_def

lemmas lex_defs = regex_defs string_defs number_value_def literal_value_def py_int_def
  digit_value_def lex_yield_def lex_next.simps lex_from.simps lex_def

lemmas parse_defs = lex_defs generator_next_def LookAhead_next_def LookAhead_peek_def
  except_StopIteration_def expect_def dict_contains_def parse_def fuel_numeral
  DEPTH_LIMIT_DEFAULT_def

section \<open>Facts about the tokenizer\<close>

text \<open>
  A position where no alternative of the pattern matches is a gap: whether
  \<^verbatim>\<open>finditer\<close> finds a later match or none, the generator raises at that position.
  An opening quote with no string match is such a position, since no other
  alternative starts with a quote.
\<close>

lemma match_string_rest_no_quote: "DQUOTE \<notin> set s \<Longrightarrow> match_string_rest s = None"
  by (induction s rule: match_string_rest.induct) (auto split: list.splits)

lemma match_token_unclosed_quote:
  assumes "match_STRING (DQUOTE # cs) = None"
  shows "match_token (DQUOTE # cs) = None"
  using assms by (simp add: regex_defs)

lemma lex_next_gap:
  assumes "pos < length t" and "match_token (drop pos t) = None"
  shows "lex_next t pos = Inl (SyntaxError (InvalidCharacter pos))"
proof -
  from assms(1) have d: "drop pos t = t ! pos # drop (Suc pos) t"
    by (simp add: Cons_nth_drop_Suc)
  with assms(2) have f: "finditer_from (drop pos t) pos = finditer_from (drop (Suc pos) t) (Suc pos)"
    by simp
  show ?thesis
  proof (cases "finditer_from (drop (Suc pos) t) (Suc pos)")
    case None
    with f assms(1) show ?thesis
      by (simp add: lex_next.simps [of t pos])
  next
    case (Some m)
    obtain k a b where m: "m = (k, a, b)"
      by (cases m)
    from finditer_from_bounds [of "drop (Suc pos) t" "Suc pos" k a b] Some m have "a \<noteq> pos"
      by simp
    with f Some m show ?thesis
      by (simp add: lex_next.simps [of t pos])
  qed
qed

lemma lex_next_unclosed_quote:
  assumes "pos < length t" and "t ! pos = DQUOTE" and "match_STRING (drop pos t) = None"
  shows "lex_next t pos = Inl (SyntaxError (InvalidCharacter pos))"
proof -
  from Cons_nth_drop_Suc [OF assms(1)] assms(2) have "drop pos t = DQUOTE # drop (Suc pos) t"
    by simp
  with assms(3) have "match_token (drop pos t) = None"
    by (simp add: match_token_unclosed_quote)
  with assms(1) show ?thesis
    by (rule lex_next_gap)
qed

lemma lex_error: "lex_next t 0 = Inl e \<Longrightarrow> lex t = Inl e"
  by (simp add: lex_def lex_from.simps [of t 0])

lemma parse_lex_error: "lex_next t 0 = Inl e \<Longrightarrow> parse t max_depth allow_dup = Inl e"
  by (simp add: parse_def LookAhead_peek_def generator_next_def)

lemma peek_first_token:
  assumes "lex_next t 0 = Inr (Some (tok, p))"
  shows "LookAhead_peek t \<lparr>iter = 0, buf = []\<rparr> = Inr (tok, \<lparr>iter = p, buf = [tok]\<rparr>)"
  using assms by (simp add: LookAhead_peek_def generator_next_def)

text \<open>
  What a resumed generator yields: a token of a kind other than whitespace, whose
  lexeme is the pattern's match at the token's offset, converted by \<open>lex_yield\<close>.
  Every token of \<^verbatim>\<open>list(lex(text))\<close> is yielded at some position.
\<close>

lemma finditer_from_at_start:
  assumes "finditer_from s p = Some (k, p, b)"
  shows "match_token s = Some (k, b - p)"
proof (cases s)
  case Nil
  with assms show ?thesis by simp
next
  case (Cons c cs)
  show ?thesis
  proof (cases "match_token (c # cs)")
    case None
    with assms Cons have "finditer_from cs (Suc p) = Some (k, p, b)"
      by simp
    from finditer_from_bounds [OF this] show ?thesis
      by simp
  next
    case (Some kn)
    with assms Cons show ?thesis
      by (cases kn) auto
  qed
qed

lemma lex_yield_token:
  assumes "lex_yield t kind start stop = Inr (Some ((kind', value, start'), stop'))"
  shows "kind' = kind \<and> start' = start \<and> stop' = stop"
  using assms by (auto simp: lex_yield_def split: if_splits sum.splits)

lemma lex_next_yield:
  "lex_next t pos = Inr (Some ((kind, value, start), stop)) \<Longrightarrow>
     kind \<noteq> WHITESPACE \<and> match_token (drop start t) = Some (kind, stop - start) \<and>
     start < stop \<and> stop \<le> length t \<and>
     lex_yield t kind start stop = Inr (Some ((kind, value, start), stop))"
proof (induction t pos rule: lex_next.induct)
  case (1 t pos)
  show ?case
  proof (cases "finditer_from (drop pos t) pos")
    case None
    with 1(2) show ?thesis
      by (simp add: lex_next.simps [of t pos] split: if_splits)
  next
    case (Some m)
    obtain k a b where m: "m = (k, a, b)"
      by (cases m)
    from finditer_from_bounds [of "drop pos t" pos k a b] Some m
    have b: "a < b" "b \<le> pos + length (drop pos t)"
      by simp_all
    show ?thesis
    proof (cases "a = pos")
      case False
      with 1(2) Some m show ?thesis
        by (simp add: lex_next.simps [of t pos])
    next
      case True
      show ?thesis
      proof (cases "k = WHITESPACE")
        case w: True
        with 1(2) Some m True have "lex_next t b = Inr (Some ((kind, value, start), stop))"
          by (simp add: lex_next.simps [of t pos])
        with 1(1) [OF Some m [symmetric] refl _ w] True show ?thesis
          by simp
      next
        case False
        with 1(2) Some m True
        have y: "lex_yield t k pos b = Inr (Some ((kind, value, start), stop))"
          by (simp add: lex_next.simps [of t pos])
        from lex_yield_token [OF y] have e: "kind = k" "start = pos" "stop = b"
          by simp_all
        from Some m True have "match_token (drop pos t) = Some (k, b - pos)"
          by (intro finditer_from_at_start) simp
        with e y b True False show ?thesis
          by auto
      qed
    qed
  qed
qed

lemma lex_from_tokens:
  "lex_from t pos = Inr toks \<Longrightarrow> tok \<in> set toks \<Longrightarrow> \<exists>p p'. lex_next t p = Inr (Some (tok, p'))"
proof (induction t pos arbitrary: toks rule: lex_from.induct)
  case (1 t pos)
  show ?case
  proof (cases "lex_next t pos")
    case (Inl e)
    with 1(2) show ?thesis
      by (simp add: lex_from.simps [of t pos])
  next
    case (Inr r)
    show ?thesis
    proof (cases r)
      case None
      with 1(2,3) Inr show ?thesis
        by (simp add: lex_from.simps [of t pos])
    next
      case (Some tp)
      obtain tok' p' where tp: "tp = (tok', p')"
        by (cases tp)
      from 1(2) Inr Some tp obtain rest where rest: "lex_from t p' = Inr rest" "toks = tok' # rest"
        by (auto simp: lex_from.simps [of t pos] split: sum.splits)
      show ?thesis
      proof (cases "tok = tok'")
        case True
        with Inr Some tp show ?thesis
          by blast
      next
        case False
        with 1(3) rest have "tok \<in> set rest"
          by simp
        from 1(1) [OF Inr Some tp [symmetric] rest(1) this] show ?thesis .
      qed
    qed
  qed
qed

section \<open>Surrogate pairs (C1)\<close>

text \<open>
  C1 says that a string token holding a valid surrogate pair written as two adjacent
  \<^verbatim>\<open>\uXXXX\<close> escapes decodes to one code point without an error.  The code decodes
  with the \<^verbatim>\<open>unicode_escape\<close> codec, which yields the two surrogate code points one
  by one, and the scan that follows raises: the token \<^verbatim>\<open>"\uD83D\uDE00"\<close> is rejected
  with \<^verbatim>\<open>unpaired surrogate in string\<close>, by \<^verbatim>\<open>lex\<close> and by \<^verbatim>\<open>parse\<close>.
\<close>

theorem surrogate_pair_rejected:
  \<open>lex (str ''"'' @ [BACKSLASH] @ str ''uD83D'' @ [BACKSLASH] @ str ''uDE00"'')
     = Inl (SyntaxError UnpairedSurrogate) \<and>
   parse (str ''["'' @ [BACKSLASH] @ str ''uD83D'' @ [BACKSLASH] @ str ''uDE00"]'')
       DEPTH_LIMIT_DEFAULT False
     = Inl (SyntaxError UnpairedSurrogate)\<close>
  by (simp add: parse_defs)

section \<open>Leading zeros (C3)\<close>

text \<open>
  Against C3 as stated: \<^verbatim>\<open>lex("01")\<close> does not fail.  The number pattern matches
  \<^verbatim>\<open>0\<close> at offset 0 and again \<^verbatim>\<open>1\<close> at offset 1, so the scan has no gap and two
  number tokens are produced.
\<close>

theorem leading_zero_lexes_as_two_tokens:
  "lex (str ''01'') = Inr [(NUMBER, PyInt 0, 0), (NUMBER, PyInt 1, 1)]"
  by (simp add: lex_defs)

text \<open>
  C3 as amended: lexing \<^verbatim>\<open>01\<close> yields the two number tokens 0 (offset 0) and 1
  (offset 1); the leading zero is rejected by the parser only: \<^verbatim>\<open>parse("01")\<close> fails
  with the root error on the number 0, and \<^verbatim>\<open>parse("[01]")\<close> fails at the second
  digit, offset 2, where a comma is expected.
\<close>

theorem leading_zero_rejected_by_parser:
  "lex (str ''01'') = Inr [(NUMBER, PyInt 0, 0), (NUMBER, PyInt 1, 1)] \<and>
   parse (str ''01'') DEPTH_LIMIT_DEFAULT False
     = Inl (SyntaxError (RootMustBeContainer NUMBER (PyInt 0) 0)) \<and>
   parse (str ''[01]'') DEPTH_LIMIT_DEFAULT False
     = Inl (SyntaxError (UnexpectedToken NUMBER (PyInt 1) 2 COMMA (Some (str '',''))))"
  by (simp add: parse_defs)

section \<open>Short escapes and literal characters (C6)\<close>

text \<open>
  C6 says that every valid short escape decodes to its one literal character, that
  \<^verbatim>\<open>\/\<close> decodes to \<^verbatim>\<open>/\<close>, and that an unescaped non-ASCII character decodes to
  itself.  The scan of \<^verbatim>\<open>_validate_string\<close> accepts \<^verbatim>\<open>\/\<close>, but the codec does not
  know it and keeps both characters; and the codec reads the UTF-8 bytes of the
  text as Latin-1, so U+00E9 comes out as the two characters U+00C3 U+00A9.
\<close>

theorem slash_escape_and_non_ascii_decoding:
  \<open>lex (str ''"'' @ [BACKSLASH] @ str ''/"'') = Inr [(STRING, PyStr [BACKSLASH, 47], 0)] \<and>
   lex [DQUOTE, 233, DQUOTE] = Inr [(STRING, PyStr [195, 169], 0)]\<close>
  by (simp add: lex_defs)

section \<open>The class of the failure (C7)\<close>

text \<open>
  C7 says that every failure of \<^verbatim>\<open>parse\<close> is a \<^verbatim>\<open>SyntaxError\<close>, also on the empty
  and on a whitespace-only text.  On both the token generator ends without a
  token, and the first \<^verbatim>\<open>tokens.peek()\<close> of \<^verbatim>\<open>parse\<close>, which no \<^verbatim>\<open>try\<close> guards,
  lets the \<^verbatim>\<open>StopIteration\<close> out.
\<close>

theorem parse_empty_text_raises_StopIteration:
  "parse [] DEPTH_LIMIT_DEFAULT False = Inl StopIteration \<and>
   parse (str '' '') DEPTH_LIMIT_DEFAULT False = Inl StopIteration"
  by (simp add: parse_defs)

section \<open>Duplicate keys (C8)\<close>

text \<open>
  C8: \<^verbatim>\<open>{"a":1,"a":2}\<close> fails with \<^verbatim>\<open>duplicate key\<close> under the default
  configuration, and with duplicate keys allowed it parses to the one-entry
  dictionary that maps \<^verbatim>\<open>a\<close> to 2, the last occurrence.
\<close>

theorem duplicate_key_policy:
  \<open>parse (str ''{"a":1,"a":2}'') DEPTH_LIMIT_DEFAULT False = Inl (SyntaxError DuplicateKey) \<and>
   parse (str ''{"a":1,"a":2}'') DEPTH_LIMIT_DEFAULT True
     = Inr (PyDict [(PyStr (str ''a''), PyInt 2)])\<close>
  by (simp add: parse_defs)

section \<open>The root check (C4)\<close>

text \<open>
  Against C4 as stated: a text whose first token is \<^verbatim>\<open>]\<close> or \<^verbatim>\<open>}\<close> does not fail
  with the root error.  The kinds \<^verbatim>\<open>BRACKET\<close> and \<^verbatim>\<open>BRACE\<close> cover the closing
  characters too, the root check looks at the kind only, and \<^verbatim>\<open>_parse_value\<close>
  then raises \<^verbatim>\<open>unexpected token ... - value expected\<close>.
\<close>

theorem close_bracket_at_root_is_value_expected:
  "parse (str '']'') DEPTH_LIMIT_DEFAULT False
     = Inl (SyntaxError (ValueExpected BRACKET (PyStr (str '']'')))) \<and>
   parse (str ''}'') DEPTH_LIMIT_DEFAULT False
     = Inl (SyntaxError (ValueExpected BRACE (PyStr (str ''}''))))"
  by (simp add: parse_defs)

text \<open>
  C4 as amended: for every text whose first token has a kind other than \<^verbatim>\<open>BRACE\<close>
  and \<^verbatim>\<open>BRACKET\<close> (a string, a number, a literal, a comma or a colon), \<^verbatim>\<open>parse\<close>
  fails with the root error, which reports the kind, the value and the offset of
  that token; a text whose first token is \<^verbatim>\<open>]\<close> or \<^verbatim>\<open>}\<close> passes the root check and
  fails with the value-expected error instead (for \<open>max_depth \<ge> 0\<close>).
\<close>

theorem root_check_by_kind:
  assumes "lex_next t 0 = Inr (Some ((kind, value, pos), p))"
  shows "(kind \<noteq> BRACE \<and> kind \<noteq> BRACKET \<longrightarrow>
            parse t max_depth allow_dup = Inl (SyntaxError (RootMustBeContainer kind value pos)))
       \<and> (0 \<le> max_depth \<and>
            ((kind = BRACKET \<and> value = PyStr (str '']'')) \<or> (kind = BRACE \<and> value = PyStr (str ''}'')))
            \<longrightarrow> parse t max_depth allow_dup = Inl (SyntaxError (ValueExpected kind value)))"
proof -
  have fuel: "2 * length t + 2 = Suc (Suc (2 * length t))"
    by simp
  show ?thesis
    unfolding parse_def peek_first_token [OF assms] fuel
    by (auto simp: LookAhead_next_def except_StopIteration_def str_def)
qed

text \<open>The theorem at \<^verbatim>\<open>true\<close>, at \<^verbatim>\<open>"x"\<close> and at \<^verbatim>\<open>]\<close>.\<close>

theorem root_check_by_kind_witness:
  \<open>parse (str ''true'') DEPTH_LIMIT_DEFAULT False
     = Inl (SyntaxError (RootMustBeContainer LITERAL (PyBool True) 0)) \<and>
   parse (str ''"x"'') DEPTH_LIMIT_DEFAULT False
     = Inl (SyntaxError (RootMustBeContainer STRING (PyStr (str ''x'')) 0)) \<and>
   parse (str '']'') DEPTH_LIMIT_DEFAULT False
     = Inl (SyntaxError (ValueExpected BRACKET (PyStr (str '']''))))\<close>
proof -
  have a: "lex_next (str ''true'') 0 = Inr (Some ((LITERAL, PyBool True, 0), 4))"
    by (simp add: lex_defs)
  have b: \<open>lex_next (str ''"x"'') 0 = Inr (Some ((STRING, PyStr (str ''x''), 0), 3))\<close>
    by (simp add: lex_defs)
  have c: "lex_next (str '']'') 0 = Inr (Some ((BRACKET, PyStr (str '']''), 0), 1))"
    by (simp add: lex_defs)
  from root_check_by_kind [OF a, of DEPTH_LIMIT_DEFAULT False]
       root_check_by_kind [OF b, of DEPTH_LIMIT_DEFAULT False]
       root_check_by_kind [OF c, of DEPTH_LIMIT_DEFAULT False]
  show ?thesis
    by (simp add: DEPTH_LIMIT_DEFAULT_def)
qed

section \<open>A string that ends in a backslash and never closes (C5)\<close>

text \<open>
  Against C5 as stated: on \<^verbatim>\<open>"abc\ \<close> (a backslash last, no closing quote) neither \<^verbatim>\<open>lex\<close> nor
  \<^verbatim>\<open>parse\<close> reports a trailing backslash.  The string pattern does not match at the
  quote, so the tokenizer raises \<^verbatim>\<open>invalid character\<close> at the offset of the quote
  and the validator is never called.
\<close>

theorem unclosed_string_is_invalid_character:
  \<open>lex (str ''"abc'' @ [BACKSLASH]) = Inl (SyntaxError (InvalidCharacter 0)) \<and>
   parse (str ''["abc'' @ [BACKSLASH]) DEPTH_LIMIT_DEFAULT False
     = Inl (SyntaxError (InvalidCharacter 1))\<close>
  by (simp add: parse_defs)

text \<open>
  C5 as amended: for a text that ends in a string opened by a double quote, with no
  further double quote and a backslash as its last character, the tokenizer, when
  it reaches the opening quote, raises \<^verbatim>\<open>invalid character\<close> at the offset of that
  quote (so \<^verbatim>\<open>lex\<close> and \<^verbatim>\<open>parse\<close> of such a string alone fail so at offset 0); the
  trailing-backslash error at the offset of the backslash is what
  \<^verbatim>\<open>_validate_string\<close> raises when it is called on such a lexeme directly.
\<close>

theorem unclosed_string_with_trailing_backslash:
  assumes "DQUOTE \<notin> set body"
  shows "lex_next (pre @ DQUOTE # body @ [BACKSLASH]) (length pre)
           = Inl (SyntaxError (InvalidCharacter (length pre)))
       \<and> lex (DQUOTE # body @ [BACKSLASH]) = Inl (SyntaxError (InvalidCharacter 0))
       \<and> parse (DQUOTE # body @ [BACKSLASH]) max_depth allow_dup
           = Inl (SyntaxError (InvalidCharacter 0))
       \<and> validate_string (DQUOTE # body @ [BACKSLASH]) token_start
           = Inl (SyntaxError (TrailingBackslash (token_start + length body + 1)))"
proof -
  from assms have "match_string_rest (body @ [BACKSLASH]) = None"
    by (intro match_string_rest_no_quote) simp
  then have m: "match_STRING (DQUOTE # body @ [BACKSLASH]) = None"
    by (simp add: match_STRING_def)
  have a: "lex_next (pre @ DQUOTE # body @ [BACKSLASH]) (length pre)
      = Inl (SyntaxError (InvalidCharacter (length pre)))" for pre
    by (rule lex_next_unclosed_quote) (simp_all add: m)
  from a [of "[]"] have b: "lex_next (DQUOTE # body @ [BACKSLASH]) 0 = Inl (SyntaxError (InvalidCharacter 0))"
    by simp
  have c: "validate_string (DQUOTE # body @ [BACKSLASH]) token_start
      = Inl (SyntaxError (TrailingBackslash (token_start + length body + 1)))"
    by (simp add: validate_string_def)
  from a b c show ?thesis
    by (simp add: lex_error parse_lex_error)
qed

text \<open>The theorem at the text \<^verbatim>\<open>"abc\ \<close>, which ends in the backslash.\<close>

theorem unclosed_string_with_trailing_backslash_witness:
  \<open>lex (str ''"abc'' @ [BACKSLASH]) = Inl (SyntaxError (InvalidCharacter 0)) \<and>
   validate_string (str ''"abc'' @ [BACKSLASH]) 0 = Inl (SyntaxError (TrailingBackslash 4))\<close>
  using unclosed_string_with_trailing_backslash [of "str ''abc''" "[]" 0 False 0]
  by (simp add: str_def)


section \<open>Integer and float tokens (C9)\<close>

text \<open>\<^verbatim>\<open>isinstance(v, float)\<close>\<close>

definition is_float :: "pyvalue \<Rightarrow> bool" where
  "is_float v = (case v of PyFloat x \<Rightarrow> True | _ \<Rightarrow> False)"

lemma number_value_float:
  "number_value lexeme =
     (if 46 \<in> set lexeme \<or> 101 \<in> set lexeme \<or> 69 \<in> set lexeme then PyFloat lexeme
      else PyInt (py_int lexeme))"
  by (simp add: number_value_def str_def)

text \<open>
  C9: for every number token that \<^verbatim>\<open>lex\<close> produces, with the lexeme being the match
  of the pattern at the token's offset, the value is a float exactly when the
  lexeme contains \<^verbatim>\<open>.\<close>, \<^verbatim>\<open>e\<close> or \<^verbatim>\<open>E\<close> (it is then \<^verbatim>\<open>float\<close> of the lexeme), and
  otherwise it is the integer that \<^verbatim>\<open>int\<close> reads from the lexeme; and each of
  \<^verbatim>\<open>-0\<close>, \<^verbatim>\<open>0\<close>, \<^verbatim>\<open>0.5\<close>, \<^verbatim>\<open>1e10\<close>, \<^verbatim>\<open>-3.14e-2\<close> lexes into one number token,
  an integer for the first two and a float for the others.
\<close>

theorem number_token_classification:
  "(\<forall>t toks value start.
      lex t = Inr toks \<and> (NUMBER, value, start) \<in> set toks \<longrightarrow>
      (\<exists>stop. start < stop \<and> stop \<le> length t \<and>
         match_token (drop start t) = Some (NUMBER, stop - start) \<and>
         (is_float value \<longleftrightarrow>
            46 \<in> set (slice t start stop) \<or> 101 \<in> set (slice t start stop)
              \<or> 69 \<in> set (slice t start stop)) \<and>
         (if is_float value then value = PyFloat (slice t start stop)
          else value = PyInt (py_int (slice t start stop))))) \<and>
   lex (str ''-0'') = Inr [(NUMBER, PyInt 0, 0)] \<and>
   lex (str ''0'') = Inr [(NUMBER, PyInt 0, 0)] \<and>
   lex (str ''0.5'') = Inr [(NUMBER, PyFloat (str ''0.5''), 0)] \<and>
   lex (str ''1e10'') = Inr [(NUMBER, PyFloat (str ''1e10''), 0)] \<and>
   lex (str ''-3.14e-2'') = Inr [(NUMBER, PyFloat (str ''-3.14e-2''), 0)]"
proof -
  have general: "\<exists>stop. start < stop \<and> stop \<le> length t \<and>
         match_token (drop start t) = Some (NUMBER, stop - start) \<and>
         (is_float v \<longleftrightarrow>
            46 \<in> set (slice t start stop) \<or> 101 \<in> set (slice t start stop)
              \<or> 69 \<in> set (slice t start stop)) \<and>
         (if is_float v then v = PyFloat (slice t start stop)
          else v = PyInt (py_int (slice t start stop)))"
    if l: "lex t = Inr toks" and m: "(NUMBER, v, start) \<in> set toks"
    for t toks v start
  proof -
    from l m obtain p stop where "lex_next t p = Inr (Some ((NUMBER, v, start), stop))"
      unfolding lex_def by (blast dest: lex_from_tokens)
    from lex_next_yield [OF this]
    have b: "match_token (drop start t) = Some (NUMBER, stop - start)" "start < stop" "stop \<le> length t"
      and y: "lex_yield t NUMBER start stop = Inr (Some ((NUMBER, v, start), stop))"
      by simp_all
    from y have "v = number_value (slice t start stop)"
      by (simp add: lex_yield_def)
    then have "(is_float v \<longleftrightarrow>
            46 \<in> set (slice t start stop) \<or> 101 \<in> set (slice t start stop)
              \<or> 69 \<in> set (slice t start stop)) \<and>
         (if is_float v then v = PyFloat (slice t start stop)
          else v = PyInt (py_int (slice t start stop)))"
      by (simp add: number_value_float is_float_def)
    with b show ?thesis
      by blast
  qed
  have g: "\<forall>t toks v start.
      lex t = Inr toks \<and> (NUMBER, v, start) \<in> set toks \<longrightarrow>
      (\<exists>stop. start < stop \<and> stop \<le> length t \<and>
         match_token (drop start t) = Some (NUMBER, stop - start) \<and>
         (is_float v \<longleftrightarrow>
            46 \<in> set (slice t start stop) \<or> 101 \<in> set (slice t start stop)
              \<or> 69 \<in> set (slice t start stop)) \<and>
         (if is_float v then v = PyFloat (slice t start stop)
          else v = PyInt (py_int (slice t start stop))))"
  proof (intro allI impI, elim conjE)
    fix t toks v start
    assume "lex t = Inr toks" "(NUMBER, v, start) \<in> set toks"
    then show "\<exists>stop. start < stop \<and> stop \<le> length t \<and>
         match_token (drop start t) = Some (NUMBER, stop - start) \<and>
         (is_float v \<longleftrightarrow>
            46 \<in> set (slice t start stop) \<or> 101 \<in> set (slice t start stop)
              \<or> 69 \<in> set (slice t start stop)) \<and>
         (if is_float v then v = PyFloat (slice t start stop)
          else v = PyInt (py_int (slice t start stop)))"
      by (rule general)
  qed
  have e1: "lex (str ''-0'') = Inr [(NUMBER, PyInt 0, 0)]"
    by (simp add: lex_defs)
  have e2: "lex (str ''0'') = Inr [(NUMBER, PyInt 0, 0)]"
    by (simp add: lex_defs)
  have e3: "lex (str ''0.5'') = Inr [(NUMBER, PyFloat (str ''0.5''), 0)]"
    by (simp add: lex_defs)
  have e4: "lex (str ''1e10'') = Inr [(NUMBER, PyFloat (str ''1e10''), 0)]"
    by (simp add: lex_defs)
  have e5: "lex (str ''-3.14e-2'') = Inr [(NUMBER, PyFloat (str ''-3.14e-2''), 0)]"
    by (simp add: lex_defs)
  show ?thesis
    by (intro conjI; rule g e1 e2 e3 e4 e5)
qed

text \<open>The theorem at the token \<^verbatim>\<open>1.5\<close> of the text \<^verbatim>\<open>[1.5,7]\<close>.\<close>

theorem number_token_classification_witness:
  "\<exists>stop. 1 < stop \<and> stop \<le> length (str ''[1.5,7]'') \<and>
     (is_float (PyFloat (str ''1.5'')) \<longleftrightarrow>
        46 \<in> set (slice (str ''[1.5,7]'') 1 stop) \<or> 101 \<in> set (slice (str ''[1.5,7]'') 1 stop)
          \<or> 69 \<in> set (slice (str ''[1.5,7]'') 1 stop)) \<and>
     PyFloat (str ''1.5'') = PyFloat (slice (str ''[1.5,7]'') 1 stop)"
proof -
  have l: "lex (str ''[1.5,7]'') =
      Inr [(BRACKET, PyStr (str ''[''), 0), (NUMBER, PyFloat (str ''1.5''), 1),
           (COMMA, PyStr (str '',''), 4), (NUMBER, PyInt 7, 5), (BRACKET, PyStr (str '']''), 6)]"
    by (simp add: lex_defs)
  have f: "is_float (PyFloat (str ''1.5''))"
    by (simp add: is_float_def)
  from number_token_classification [THEN conjunct1, rule_format,
      of "str ''[1.5,7]''" _ "PyFloat (str ''1.5'')" 1] l f
  show ?thesis
    by auto
qed


end
